theory Spec2Isabelle
  imports Main
begin

section \<open>Python string operations used by the transcript fetcher\<close>

text \<open>
  Strings are lists of 8-bit characters. The operations below are those of Python's
  \<^verbatim>\<open>str\<close> on ASCII text: \<^verbatim>\<open>isspace\<close>, \<^verbatim>\<open>isdigit\<close> and \<^verbatim>\<open>upper\<close> are given for the
  code points below 128, and a character above that range is treated as an ordinary
  character (not white space, not a digit, unchanged by \<^verbatim>\<open>upper\<close>).
\<close>

definition isspace :: "char \<Rightarrow> bool" where
  "isspace c = (c \<in> set [CHR 0x09, CHR 0x0A, CHR 0x0B, CHR 0x0C, CHR 0x0D,
                            CHR 0x1C, CHR 0x1D, CHR 0x1E, CHR 0x1F, CHR '' ''])"

definition isdigit :: "char \<Rightarrow> bool" where
  "isdigit c = (c \<in> set ''0123456789'')"

definition upper_char :: "char \<Rightarrow> char" where
  "upper_char c =
     (case map_of (zip ''abcdefghijklmnopqrstuvwxyz'' ''ABCDEFGHIJKLMNOPQRSTUVWXYZ'') c of
        Some u \<Rightarrow> u
      | None \<Rightarrow> c)"

definition upper :: "string \<Rightarrow> string" where
  "upper s = map upper_char s"

definition lstrip :: "string \<Rightarrow> string" where
  "lstrip s = dropWhile isspace s"

definition rstrip :: "string \<Rightarrow> string" where
  "rstrip s = rev (dropWhile isspace (rev s))"

definition strip :: "string \<Rightarrow> string" where
  "strip s = rstrip (lstrip s)"

text \<open>\<^verbatim>\<open>s.lstrip(chars)\<close>: drop leading characters that occur in \<open>chars\<close>.\<close>

definition lstrip_chars :: "string \<Rightarrow> string \<Rightarrow> string" where
  "lstrip_chars chars s = dropWhile (\<lambda>c. c \<in> set chars) s"

fun startswith :: "string \<Rightarrow> string \<Rightarrow> bool" where
  "startswith s [] = True"
| "startswith [] (p # ps) = False"
| "startswith (c # cs) (p # ps) = (c = p \<and> startswith cs ps)"

text \<open>\<^verbatim>\<open>sub in s\<close>.\<close>

fun contains :: "string \<Rightarrow> string \<Rightarrow> bool" where
  "contains [] sub = (sub = [])"
| "contains (c # cs) sub = (startswith (c # cs) sub \<or> contains cs sub)"

text \<open>The text after the leftmost occurrence of \<open>sep\<close> (empty when there is none).\<close>

fun after_first :: "string \<Rightarrow> string \<Rightarrow> string" where
  "after_first [] sep = []"
| "after_first (c # cs) sep =
     (if startswith (c # cs) sep then drop (length sep) (c # cs) else after_first cs sep)"

text \<open>\<^verbatim>\<open>s.split(sep, 1)[-1]\<close> for a non-empty \<open>sep\<close>: the whole of \<open>s\<close> when \<open>sep\<close>
  does not occur, the text after its leftmost occurrence otherwise.\<close>

definition split1_last :: "string \<Rightarrow> string \<Rightarrow> string" where
  "split1_last s sep = (if contains s sep then after_first s sep else s)"

text \<open>\<^verbatim>\<open>s.split(c)\<close> for a one-character separator; never the empty list.\<close>

fun split_on :: "char \<Rightarrow> string \<Rightarrow> string list" where
  "split_on c [] = [[]]"
| "split_on c (x # xs) =
     (if x = c then [] # split_on c xs
      else (case split_on c xs of
              [] \<Rightarrow> [[x]]
            | y # ys \<Rightarrow> (x # y) # ys))"

text \<open>\<^verbatim>\<open>sep.join(xs)\<close>.\<close>

fun join :: "string \<Rightarrow> string list \<Rightarrow> string" where
  "join sep [] = []"
| "join sep [x] = x"
| "join sep (x # y # ys) = x @ sep @ join sep (y # ys)"




section \<open>Errors\<close>

datatype py_error = IndexError string

text \<open>\<^verbatim>\<open>s[i]\<close> on a string and \<^verbatim>\<open>xs[i]\<close> on a list, for a non-negative \<open>i\<close>: both
  raise \<^verbatim>\<open>IndexError\<close> out of range, with their own messages.\<close>

definition str_index :: "string \<Rightarrow> nat \<Rightarrow> py_error + char" where
  "str_index s i =
     (if i < length s then Inr (s ! i) else Inl (IndexError ''string index out of range''))"

definition list_index :: "'a list \<Rightarrow> nat \<Rightarrow> py_error + 'a" where
  "list_index xs i =
     (if i < length xs then Inr (xs ! i) else Inl (IndexError ''list index out of range''))"

text \<open>
  \<^verbatim>\<open>int(s)\<close> on a string, in base 10: white space around the literal is skipped (the six
  characters of C's \<^verbatim>\<open>isspace\<close>), one sign may come first, and the digits may be grouped
  by single underscores. Anything else raises \<^verbatim>\<open>ValueError\<close>, kept here with the string
  that was refused.
\<close>

datatype int_error = ValueError string

definition c_isspace :: "char \<Rightarrow> bool" where
  "c_isspace c = (c \<in> set [CHR 0x09, CHR 0x0A, CHR 0x0B, CHR 0x0C, CHR 0x0D, CHR '' ''])"

definition digit_value :: "char \<Rightarrow> nat" where
  "digit_value c = length (takeWhile (\<lambda>d. d \<noteq> c) ''0123456789'')"

fun more_digits :: "nat \<Rightarrow> string \<Rightarrow> nat option" where
  "more_digits acc [] = Some acc"
| "more_digits acc [c] = (if isdigit c then Some (10 * acc + digit_value c) else None)"
| "more_digits acc (c # d # ds) =
     (if isdigit c then more_digits (10 * acc + digit_value c) (d # ds)
      else if c = CHR ''_'' \<and> isdigit d then more_digits (10 * acc + digit_value d) ds
      else None)"

definition literal_value :: "string \<Rightarrow> nat option" where
  "literal_value s =
     (case s of
        [] \<Rightarrow> None
      | c # cs \<Rightarrow> if isdigit c then more_digits (digit_value c) cs else None)"

definition py_int :: "string \<Rightarrow> int_error + int" where
  "py_int s =
     (let t = rev (dropWhile c_isspace (rev (dropWhile c_isspace s)));
          negative = startswith t ''-'';
          digits = (if startswith t ''-'' \<or> startswith t ''+'' then drop 1 t else t)
      in case literal_value digits of
           None \<Rightarrow> Inl (ValueError s)
         | Some n \<Rightarrow> Inr (if negative then - int n else int n))"

section \<open>The meeting record and the parser of the model's completion\<close>

record action_item =
  task :: string
  assignee :: "string option"

record meeting_record =
  title :: string
  summary_html :: string
  action_items :: "action_item list"

datatype section_tag = Title | Summary | Actions

text \<open>The local variables of the parsing loop (lines 168 to 175).\<close>

record parse_state =
  cur_title :: string
  current_section :: "section_tag option"
  summary_lines :: "string list"
  items :: "action_item list"

definition newline :: string where
  "newline = [CHR 0x0A]"

definition default_title :: string where
  "default_title = ''Meeting Summary & Transcript''"

text \<open>Lines 192 to 197: the numbering is removed from a stripped action line.\<close>

definition remove_numbering :: "string \<Rightarrow> string" where
  "remove_numbering line_stripped =
     (let action_text = line_stripped;
          action_text =
            (if contains action_text ''. '' then split1_last action_text ''. ''
             else if contains action_text '') '' then split1_last action_text '') ''
             else action_text)
      in strip (lstrip_chars ''* '' (lstrip_chars ''- '' action_text)))"

text \<open>Lines 200 to 206: the task text and the assignee of a de-numbered action text.\<close>

definition parse_assignee :: "string \<Rightarrow> py_error + (string \<times> string option)" where
  "parse_assignee action_text =
     (if contains action_text ''| ASSIGNEE:'' \<or> contains action_text ''|ASSIGNEE:'' then
        (let parts = split_on CHR ''|'' action_text in
         case list_index parts 0 of
           Inl e \<Rightarrow> Inl e
         | Inr part0 \<Rightarrow>
             (case list_index parts 1 of
                Inl e \<Rightarrow> Inl e
              | Inr part1 \<Rightarrow>
                  (let assignee_part = strip part1 in
                   Inr (strip part0,
                        if startswith (upper assignee_part) ''ASSIGNEE:''
                        then Some (strip (drop 9 assignee_part))
                        else None))))
      else Inr (action_text, None))"

text \<open>Lines 178 to 212: the body of the loop over the lines.\<close>

definition parse_line :: "parse_state \<Rightarrow> string \<Rightarrow> py_error + parse_state" where
  "parse_line st line =
     (let line_stripped = strip line in
      if startswith (upper line_stripped) ''TITLE:'' then
        Inr (st\<lparr>cur_title := strip (drop 6 line_stripped), current_section := Some Title\<rparr>)
      else if startswith (upper line_stripped) ''SUMMARY:'' then
        Inr (st\<lparr>current_section := Some Summary\<rparr>)
      else if startswith (upper line_stripped) ''ACTION ITEMS:'' then
        Inr (st\<lparr>current_section := Some Actions\<rparr>)
      else if current_section st = Some Summary \<and> line_stripped \<noteq> [] then
        Inr (st\<lparr>summary_lines := summary_lines st @ [line]\<rparr>)
      else if current_section st = Some Actions \<and> line_stripped \<noteq> [] then
        (case str_index line_stripped 0 of
           Inl e \<Rightarrow> Inl e
         | Inr c0 \<Rightarrow>
             if isdigit c0 \<or> startswith line_stripped ''-'' then
               (case parse_assignee (remove_numbering line_stripped) of
                  Inl e \<Rightarrow> Inl e
                | Inr (action_text, who) \<Rightarrow>
                    if action_text \<noteq> [] then
                      Inr (st\<lparr>items := items st @ [\<lparr>task = action_text, assignee = who\<rparr>]\<rparr>)
                    else Inr st)
             else Inr st)
      else Inr st)"

fun parse_lines :: "parse_state \<Rightarrow> string list \<Rightarrow> py_error + parse_state" where
  "parse_lines st [] = Inr st"
| "parse_lines st (l # ls) =
     (case parse_line st l of
        Inl e \<Rightarrow> Inl e
      | Inr st' \<Rightarrow> parse_lines st' ls)"

definition initial_state :: parse_state where
  "initial_state = \<lparr>cur_title = default_title, current_section = None,
                     summary_lines = [], items = []\<rparr>"

text \<open>Lines 166 to 221: the completion text is parsed into a meeting record.\<close>

definition parse_completion :: "string \<Rightarrow> py_error + meeting_record" where
  "parse_completion content =
     (case parse_lines initial_state (split_on CHR 0x0A content) of
        Inl e \<Rightarrow> Inl e
      | Inr st \<Rightarrow>
          Inr \<lparr>title = cur_title st,
               summary_html = (if summary_lines st \<noteq> []
                               then strip (join newline (summary_lines st))
                               else content),
               action_items = items st\<rparr>)"









section \<open>The remote services\<close>

text \<open>
  Every call of \<^verbatim>\<open>requests\<close> is a request to a remote service. A request is identified
  by its endpoint and by the parameters the code computes; the base address and the
  credentials, read from the environment once and the same in every call, are left out,
  and so is the fixed text of the two prompts. Every request is answered: a
  failure is an answer with another status code, and the exceptions of the transport
  (no connection, a timeout) are outside this model.
\<close>

text \<open>A listed page: its \<^verbatim>\<open>id\<close>, a string, and its \<^verbatim>\<open>title\<close>.\<close>

record candidate =
  cand_id :: string
  cand_title :: string

datatype request =
    SummaryChat string string
  | ContributionChat string string string
  | SearchPages string nat
  | CreatePage string string "int option" string
  | DeletePage string
  | UserSearch string
  | CreateIssue string string string string "string option"
  | GetPage string
  | PutPage string string string int

text \<open>
  \<^item> \<open>SummaryChat api_key transcript\<close>: the chat completion of lines 119 to 161.
  \<^item> \<open>ContributionChat api_key name transcript\<close>: the chat completion of lines 400 to 412.
  \<^item> \<open>SearchPages space_key limit\<close>: the content search of lines 257 to 264.
  \<^item> \<open>CreatePage title space_key ancestor body\<close>: the page creation of lines 277 to 292;
    \<open>ancestor\<close> is the number in the \<^verbatim>\<open>ancestors\<close> field, absent when the field is not set.
  \<^item> \<open>DeletePage id\<close>: the deletion of line 299.
  \<^item> \<open>UserSearch query\<close>: the user search of lines 318 to 320.
  \<^item> \<open>CreateIssue project_key summary description issue_type account\<close>: the issue creation
    of lines 340 to 371; \<open>account\<close> is the \<^verbatim>\<open>accountId\<close> of the assignee field, absent
    when the field is not set.
  \<^item> \<open>GetPage page_id\<close>: the page read of line 420.
  \<^item> \<open>PutPage page_id title body version\<close>: the page update of lines 433 to 444.
\<close>

text \<open>
  The reply to a request: its status code and the fields of its body that the code
  reads. A call site reads only the fields of its own endpoint. The fields read with
  \<^verbatim>\<open>.get\<close> and a default are optional.
\<close>

record response =
  status_code :: nat
  resp_text :: string
  content :: string
  results :: "candidate list"
  new_id :: string
  users :: "string list"
  issue_key :: string
  page_title :: "string option"
  page_body :: "string option"
  page_version :: "int option"

type_synonym exchange = "request \<times> response"

text \<open>
  A service answers a request from the exchanges made so far, so its answer may depend on
  everything the run has done before. Each function below takes the exchanges made so far
  and returns them extended by its own.
\<close>

type_synonym server = "exchange list \<Rightarrow> request \<Rightarrow> response"

definition created_ok :: "response \<Rightarrow> bool" where
  "created_ok r = (status_code r = 200 \<or> status_code r = 201)"

subsection \<open>The permission probe\<close>

text \<open>Lines 271 to 304: the loop over the listed pages.\<close>

definition test_page_request :: "string \<Rightarrow> string \<Rightarrow> int \<Rightarrow> request" where
  "test_page_request space_key page_id ancestor =
     CreatePage (''Test Page - '' @ page_id) space_key (Some ancestor) ''<p>Test</p>''"

fun probe_pages ::
  "server \<Rightarrow> string \<Rightarrow> candidate list \<Rightarrow> exchange list
    \<Rightarrow> (int_error + string option) \<times> exchange list" where
  "probe_pages srv space_key [] h = (Inr None, h)"
| "probe_pages srv space_key (page # pages) h =
     (let page_id = cand_id page in
      case py_int page_id of
        Inl e \<Rightarrow> (Inl e, h)
      | Inr ancestor \<Rightarrow>
          (let test_request = test_page_request space_key page_id ancestor;
               test_response = srv h test_request;
               h1 = h @ [(test_request, test_response)]
           in if created_ok test_response then
                (let delete_request = DeletePage (new_id test_response);
                     h2 = h1 @ [(delete_request, srv h1 delete_request)]
                 in (Inr (Some page_id), h2))
              else probe_pages srv space_key pages h1))"

text \<open>Lines 252 to 306. The result is the identifier of a page as it was listed, null, or
  the \<^verbatim>\<open>ValueError\<close> of line 281, which nothing in the function catches.\<close>

definition find_valid_parent_pages ::
  "server \<Rightarrow> string \<Rightarrow> exchange list \<Rightarrow> (int_error + string option) \<times> exchange list" where
  "find_valid_parent_pages srv space_key h =
     (let search = SearchPages space_key 10;
          response = srv h search;
          h1 = h @ [(search, response)]
      in if status_code response = 200 then probe_pages srv space_key (results response) h1
         else (Inr None, h1))"

subsection \<open>Work items\<close>

definition get_jira_user_by_name ::
  "server \<Rightarrow> string \<Rightarrow> exchange list \<Rightarrow> string option \<times> exchange list" where
  "get_jira_user_by_name srv name h =
     (let search = UserSearch name;
          response = srv h search;
          h1 = h @ [(search, response)]
      in if status_code response = 200 then
           (case users response of
              [] \<Rightarrow> (None, h1)
            | account # _ \<Rightarrow> (Some account, h1))
         else (None, h1))"

text \<open>Lines 357 to 363: the account of the assignee field; an empty name or an empty
  account identifier counts as absent, as Python's truth test has it.\<close>

definition resolve_assignee ::
  "server \<Rightarrow> string option \<Rightarrow> exchange list \<Rightarrow> string option \<times> exchange list" where
  "resolve_assignee srv assignee_name h =
     (case assignee_name of
        None \<Rightarrow> (None, h)
      | Some name \<Rightarrow>
          if name = [] then (None, h)
          else (case get_jira_user_by_name srv name h of
                  (None, h1) \<Rightarrow> (None, h1)
                | (Some account_id, h1) \<Rightarrow>
                    if account_id = [] then (None, h1) else (Some account_id, h1)))"

definition create_jira_ticket ::
  "server \<Rightarrow> string \<Rightarrow> string \<Rightarrow> string \<Rightarrow> string \<Rightarrow> string option \<Rightarrow> exchange list
    \<Rightarrow> response option \<times> exchange list" where
  "create_jira_ticket srv summary description project_key issue_type assignee_name h =
     (case resolve_assignee srv assignee_name h of
        (account, h1) \<Rightarrow>
          (let create = CreateIssue project_key summary description issue_type account;
               response = srv h1 create;
               h2 = h1 @ [(create, response)]
           in if created_ok response then (Some response, h2) else (None, h2)))"

text \<open>Line 591.\<close>

definition ticket_summary :: "string \<Rightarrow> string" where
  "ticket_summary tsk = (if length tsk > 100 then take 97 tsk @ ''...'' else tsk)"

text \<open>Lines 594 to 598.\<close>

definition ticket_description :: "string \<Rightarrow> string \<Rightarrow> string \<Rightarrow> string" where
  "ticket_description meeting_title tsk confluence_link =
     ''Action item from meeting: '' @ meeting_title @ newline @ newline
     @ ''Task: '' @ tsk @ newline @ newline
     @ ''Meeting notes: '' @ confluence_link"

text \<open>Lines 585 to 613 of \<^verbatim>\<open>main\<close>: the loop over the action items, with the list of the
  keys of the created tickets.\<close>

fun create_tickets ::
  "server \<Rightarrow> string \<Rightarrow> string \<Rightarrow> string \<Rightarrow> action_item list \<Rightarrow> string list \<Rightarrow> exchange list
    \<Rightarrow> string list \<times> exchange list" where
  "create_tickets srv project_key meeting_title link [] created_tickets h = (created_tickets, h)"
| "create_tickets srv project_key meeting_title link (action_item # rest) created_tickets h =
     (case create_jira_ticket srv (ticket_summary (task action_item))
             (ticket_description meeting_title (task action_item) link)
             project_key ''Task'' (assignee action_item) h of
        (Some ticket_result, h1) \<Rightarrow>
          create_tickets srv project_key meeting_title link rest
            (created_tickets @ [issue_key ticket_result]) h1
      | (None, h1) \<Rightarrow>
          create_tickets srv project_key meeting_title link rest created_tickets h1)"

subsection \<open>The per-person logs\<close>

definition ENGINEER_PAGES :: "(string \<times> string) list" where
  "ENGINEER_PAGES =
     [(''GUY'', ''491638''), (''EYAL'', ''491645''), (''ARVIN'', ''98393''), (''MAYA'', ''557203'')]"

text \<open>Line 429.\<close>

definition new_section :: "string \<Rightarrow> string \<Rightarrow> string \<Rightarrow> string" where
  "new_section meeting_title date contributions =
     newline @ ''<h3>'' @ meeting_title @ '' - '' @ date @ ''</h3>'' @ newline
     @ contributions @ newline"

text \<open>Lines 425, 426 and 439: the body, the version number and the title read from the
  page, with the defaults of \<^verbatim>\<open>.get\<close>.\<close>

definition stored_body :: "response \<Rightarrow> string" where
  "stored_body page = (case page_body page of None \<Rightarrow> [] | Some b \<Rightarrow> b)"

definition stored_version :: "response \<Rightarrow> int" where
  "stored_version page = (case page_version page of None \<Rightarrow> 1 | Some v \<Rightarrow> v)"

definition stored_title :: "response \<Rightarrow> string" where
  "stored_title page = (case page_title page of None \<Rightarrow> [] | Some t \<Rightarrow> t)"

text \<open>Lines 399 to 445: the body of the loop over the roster.\<close>

definition update_engineer_page ::
  "server \<Rightarrow> string \<Rightarrow> string \<Rightarrow> string \<Rightarrow> string \<Rightarrow> string \<times> string \<Rightarrow> exchange list
    \<Rightarrow> exchange list" where
  "update_engineer_page srv api_key transcript meeting_title date person h =
     (let name = fst person;
          page_id = snd person;
          chat = ContributionChat api_key name transcript;
          resp = srv h chat;
          h1 = h @ [(chat, resp)]
      in if status_code resp \<noteq> 200 \<or> contains (content resp) ''NONE'' then h1
         else
           (let contributions = content resp;
                page_resp = srv h1 (GetPage page_id);
                h2 = h1 @ [(GetPage page_id, page_resp)]
            in if status_code page_resp \<noteq> 200 then h2
               else
                 (let current_body = stored_body page_resp;
                      version = stored_version page_resp;
                      updated_body = current_body @ new_section meeting_title date contributions;
                      put = PutPage page_id (stored_title page_resp) updated_body (version + 1)
                  in h2 @ [(put, srv h2 put)])))"

text \<open>Lines 383 to 445; \<open>api_key\<close> is the value of \<^verbatim>\<open>OPENAI_API_KEY\<close> in the environment,
  absent when the variable is not set, and \<open>date\<close> is the formatted current date.\<close>

definition update_engineer_pages ::
  "server \<Rightarrow> (string \<times> string) list \<Rightarrow> string option \<Rightarrow> string \<Rightarrow> string \<Rightarrow> string
    \<Rightarrow> exchange list \<Rightarrow> exchange list" where
  "update_engineer_pages srv roster api_key transcript meeting_title date h =
     (if roster = [] then h
      else (case api_key of
              None \<Rightarrow> h
            | Some key \<Rightarrow>
                if key = [] then h
                else fold (update_engineer_page srv key transcript meeting_title date) roster h))"

subsection \<open>The summary request\<close>


section \<open>Reading the exchanges of a run\<close>

fun is_create_page :: "request \<Rightarrow> bool" where
  "is_create_page (CreatePage ttl space_key ancestor body) = True"
| "is_create_page other = False"

text \<open>The number of page creations among some exchanges.\<close>

definition create_attempts :: "exchange list \<Rightarrow> nat" where
  "create_attempts tr = length (filter is_create_page (map fst tr))"

fun is_create_issue :: "request \<Rightarrow> bool" where
  "is_create_issue (CreateIssue project_key summary description issue_type account) = True"
| "is_create_issue other = False"

text \<open>The issue creations among some exchanges, in the order they were made.\<close>

definition issue_requests :: "exchange list \<Rightarrow> request list" where
  "issue_requests tr = filter is_create_issue (map fst tr)"


fun issue_description :: "request \<Rightarrow> string" where
  "issue_description (CreateIssue project_key summary description issue_type account) = description"
| "issue_description other = []"

section \<open>An example service\<close>

text \<open>A reply with the given status code and an empty body.\<close>

definition reply :: "nat \<Rightarrow> response" where
  "reply code =
     \<lparr>status_code = code, resp_text = [], content = [], results = [], new_id = [],
      users = [], issue_key = [], page_title = None, page_body = None, page_version = None\<rparr>"

text \<open>
  A service used to run the functions on concrete inputs. Its summary has none of the three
  sections. It has nothing to contribute for GUY, fails the extraction for EYAL, answers
  for MAYA with a text that has \<open>NONE\<close> inside a word, lists two pages of which only the
  second accepts a child page, fails every deletion, knows the user Maya only, and rejects
  the issue whose summary is \<open>Rejected\<close>.
\<close>

fun example_server :: server where
  "example_server h (SummaryChat key transcript) =
     (reply 200)\<lparr>content := ''We agreed to ship on Friday''\<rparr>"
| "example_server h (ContributionChat key name transcript) =
     (if name = ''GUY'' then (reply 200)\<lparr>content := ''NONE''\<rparr>
      else if name = ''EYAL'' then reply 500
      else if name = ''MAYA'' then
        (reply 200)\<lparr>content := ''<ul><li>NONETHELESS agreed to ship</li></ul>''\<rparr>
      else (reply 200)\<lparr>content := ''<ul><li>Reviewed the plan</li></ul>''\<rparr>)"
| "example_server h (SearchPages space_key limit) =
     (reply 200)\<lparr>results := [\<lparr>cand_id = ''12'', cand_title = ''Home''\<rparr>,
                               \<lparr>cand_id = ''34'', cand_title = ''Notes''\<rparr>]\<rparr>"
| "example_server h (CreatePage ttl space_key ancestor body) =
     (if ancestor = Some 34 then (reply 200)\<lparr>new_id := ''900''\<rparr> else reply 403)"
| "example_server h (DeletePage page_id) = reply 500"
| "example_server h (UserSearch query) =
     (if query = ''Maya'' then (reply 200)\<lparr>users := [''acc-maya'']\<rparr> else reply 200)"
| "example_server h (CreateIssue project_key summary description issue_type account) =
     (if summary = ''Rejected'' then reply 400 else (reply 201)\<lparr>issue_key := ''DUB-1''\<rparr>)"
| "example_server h (GetPage page_id) =
     (reply 200)\<lparr>page_title := Some ''Log'', page_body := Some ''<p>Log</p>'',
                   page_version := Some 7\<rparr>"
| "example_server h (PutPage page_id ttl body version) = reply 200"

text \<open>A service that lists eleven pages, whatever the limit asked for, and accepts no
  child page under any of them.\<close>

fun crowded_server :: server where
  "crowded_server h (SearchPages space_key limit) =
     (reply 200)\<lparr>results := map (\<lambda>i. \<lparr>cand_id = i, cand_title = ''Page '' @ i\<rparr>)
                                [''101'', ''102'', ''103'', ''104'', ''105'', ''106'',
                                 ''107'', ''108'', ''109'', ''110'', ''111'']\<rparr>"
| "crowded_server h other = reply 403"

section \<open>The per-person log update\<close>

text \<open>
  Claim C6. Whenever the update of a person's log issues a page update, the exchanges of
  that person are the extraction, the read of the page and the update, in this order, each
  answered by the service. The body of the update is the body read from the page (empty
  when the page has none) followed by the new section: a line break, the heading
  \<open><h3>\<close> meeting title \<open> - \<close> date \<open></h3>\<close>, a line break, the extracted contributions and
  a line break. The version number of the update is the version number read from the page
  (1 when the page has none) plus one.
\<close>

theorem C6_update_appends_section_and_increments_version:
  assumes "(PutPage p t b v, r) \<in> set (drop (length h)
             (update_engineer_page srv key transcript meeting_title date (name, page_id) h))"
  shows "\<exists>chat_resp page_resp.
           chat_resp = srv h (ContributionChat key name transcript)
           \<and> page_resp = srv (h @ [(ContributionChat key name transcript, chat_resp)])
                            (GetPage page_id)
           \<and> drop (length h)
               (update_engineer_page srv key transcript meeting_title date (name, page_id) h)
               = [(ContributionChat key name transcript, chat_resp),
                  (GetPage page_id, page_resp),
                  (PutPage p t b v, r)]
           \<and> p = page_id
           \<and> b = (case page_body page_resp of None \<Rightarrow> [] | Some body \<Rightarrow> body)
                 @ [CHR 0x0A] @ ''<h3>'' @ meeting_title @ '' - '' @ date @ ''</h3>''
                 @ [CHR 0x0A] @ content chat_resp @ [CHR 0x0A]
           \<and> v = (case page_version page_resp of None \<Rightarrow> 1 | Some n \<Rightarrow> n) + 1"
  using assms
  by (auto simp: update_engineer_page_def Let_def new_section_def newline_def stored_body_def
        stored_version_def split: if_splits)

theorem C6_witness:
  "(PutPage ''98393'' ''Log''
      (''<p>Log</p>'' @ [CHR 0x0A] @ ''<h3>Sync - May 01, 2025</h3>'' @ [CHR 0x0A]
       @ ''<ul><li>Reviewed the plan</li></ul>'' @ [CHR 0x0A]) 8,
    reply 200)
     \<in> set (drop (length ([]::exchange list))
           (update_engineer_page example_server ''k'' ''t'' ''Sync'' ''May 01, 2025''
              (''ARVIN'', ''98393'') []))
   \<and> page_body (example_server [] (GetPage ''98393'')) = Some ''<p>Log</p>''
   \<and> page_version (example_server [] (GetPage ''98393'')) = Some 7
   \<and> content (example_server [] (ContributionChat ''k'' ''ARVIN'' ''t''))
       = ''<ul><li>Reviewed the plan</li></ul>''"
  using C6_update_appends_section_and_increments_version
    [of "''98393''" "''Log''"
        "''<p>Log</p>'' @ [CHR 0x0A] @ ''<h3>Sync - May 01, 2025</h3>'' @ [CHR 0x0A]
         @ ''<ul><li>Reviewed the plan</li></ul>'' @ [CHR 0x0A]"
        8 "reply 200" "[]" example_server "''k''" "''t''" "''Sync''" "''May 01, 2025''"
        "''ARVIN''" "''98393''"]
  by (simp add: update_engineer_page_def Let_def stored_body_def stored_version_def
        stored_title_def reply_def new_section_def newline_def)

text \<open>With a non-empty key the function is the loop over the roster.\<close>

lemma update_engineer_pages_fold:
  "key \<noteq> [] \<Longrightarrow>
   update_engineer_pages srv roster (Some key) transcript meeting_title date h
     = fold (update_engineer_page srv key transcript meeting_title date) roster h"
  by (cases roster) (simp_all add: update_engineer_pages_def)

text \<open>
  Claim C7, as stated: a person whose extraction yields the sentinel is skipped after the
  read of the page. It fails for GUY, the first person of the roster, at the example
  service, whose extraction for GUY is the sentinel: the run over the roster never reads
  the page of GUY.
\<close>

theorem C7_counterexample:
  "GetPage ''491638''
     \<notin> set (map fst (update_engineer_pages example_server ENGINEER_PAGES (Some ''k'') ''t''
                       ''Sync'' ''May 01, 2025'' []))
   \<and> hd ENGINEER_PAGES = (''GUY'', ''491638'')
   \<and> status_code (example_server [] (ContributionChat ''k'' ''GUY'' ''t'')) = 200
   \<and> content (example_server [] (ContributionChat ''k'' ''GUY'' ''t'')) = ''NONE''"
  by (simp add: update_engineer_pages_def update_engineer_page_def ENGINEER_PAGES_def Let_def
        reply_def stored_title_def stored_body_def stored_version_def)

text \<open>
  Claim C7, amended. Without a key (the variable unset or empty) the update issues no
  request at all, for any roster: no person's page is read or written. With a key, a
  person whose extraction succeeds with the sentinel \<open>NONE\<close> is skipped before the read of
  the page: the extraction is the only exchange of that person.
\<close>

theorem C7_skip_without_key_and_skip_on_sentinel:
  "((api_key = None \<or> api_key = Some []) \<longrightarrow>
      update_engineer_pages srv roster api_key transcript meeting_title date h = h)
   \<and> (status_code (srv h (ContributionChat key name transcript)) = 200
      \<and> content (srv h (ContributionChat key name transcript)) = ''NONE'' \<longrightarrow>
        update_engineer_page srv key transcript meeting_title date (name, page_id) h
          = h @ [(ContributionChat key name transcript,
                  srv h (ContributionChat key name transcript))])"
  by (auto simp: update_engineer_pages_def update_engineer_page_def Let_def)

theorem C7_witness:
  "update_engineer_pages example_server ENGINEER_PAGES None ''t'' ''Sync'' ''May 01, 2025'' [] = []
   \<and> status_code (example_server [] (ContributionChat ''k'' ''GUY'' ''t'')) = 200
   \<and> content (example_server [] (ContributionChat ''k'' ''GUY'' ''t'')) = ''NONE''
   \<and> update_engineer_page example_server ''k'' ''t'' ''Sync'' ''May 01, 2025''
        (''GUY'', ''491638'') []
        = [(ContributionChat ''k'' ''GUY'' ''t'', (reply 200)\<lparr>content := ''NONE''\<rparr>)]"
  using C7_skip_without_key_and_skip_on_sentinel
    [of None example_server ENGINEER_PAGES "''t''" "''Sync''" "''May 01, 2025''" "[]"
        "''k''" "''GUY''" "''491638''"]
  by (simp add: reply_def)

text \<open>
  Claim C10. Let a person stand anywhere in the roster, and let the extraction for that
  person, asked after the persons before have been handled, answer with a status other
  than 200 or with a text that contains \<open>NONE\<close> anywhere. Then the extraction is the only
  exchange of that person (the page is neither read nor written), and the persons after
  are handled as they would be from the exchanges made so far.
\<close>

theorem C10_skip_on_failed_or_NONE_extraction:
  assumes "key \<noteq> []"
    and "h0 = update_engineer_pages srv pre (Some key) transcript meeting_title date h"
    and "resp = srv h0 (ContributionChat key name transcript)"
    and "status_code resp \<noteq> 200 \<or> contains (content resp) ''NONE''"
  shows "update_engineer_pages srv (pre @ (name, page_id) # rest) (Some key) transcript
           meeting_title date h
         = update_engineer_pages srv rest (Some key) transcript meeting_title date
             (h0 @ [(ContributionChat key name transcript, resp)])"
proof -
  have "update_engineer_page srv key transcript meeting_title date (name, page_id) h0
          = h0 @ [(ContributionChat key name transcript, resp)]"
    using assms(3,4) by (auto simp: update_engineer_page_def Let_def)
  then show ?thesis
    using assms(1,2) by (simp add: update_engineer_pages_fold)
qed

theorem C10_witness:
  "status_code (example_server [] (ContributionChat ''k'' ''MAYA'' ''t'')) = 200
   \<and> content (example_server [] (ContributionChat ''k'' ''MAYA'' ''t''))
       = ''<ul><li>NONETHELESS agreed to ship</li></ul>''
   \<and> contains ''<ul><li>NONETHELESS agreed to ship</li></ul>'' ''NONE''
   \<and> update_engineer_pages example_server ENGINEER_PAGES (Some ''k'') ''t''
        ''Sync'' ''May 01, 2025'' []
      = update_engineer_pages example_server
          [(''GUY'', ''491638''), (''EYAL'', ''491645''), (''ARVIN'', ''98393'')]
          (Some ''k'') ''t'' ''Sync'' ''May 01, 2025'' []
        @ [(ContributionChat ''k'' ''MAYA'' ''t'',
            example_server [] (ContributionChat ''k'' ''MAYA'' ''t''))]"
proof -
  let ?pre = "[(''GUY'', ''491638''), (''EYAL'', ''491645''), (''ARVIN'', ''98393'')]"
  let ?h0 = "update_engineer_pages example_server ?pre (Some ''k'') ''t'' ''Sync''
               ''May 01, 2025'' []"
  let ?chat = "ContributionChat ''k'' ''MAYA'' ''t''"
  have k: "''k'' \<noteq> []" by simp
  have same: "example_server ?h0 ?chat = example_server [] ?chat" by simp
  have st: "status_code (example_server [] ?chat) = 200" by (simp add: reply_def)
  have ct: "content (example_server [] ?chat) = ''<ul><li>NONETHELESS agreed to ship</li></ul>''"
    by (simp add: reply_def)
  have cn: "contains ''<ul><li>NONETHELESS agreed to ship</li></ul>'' ''NONE''" by code_simp
  have skip: "status_code (example_server [] ?chat) \<noteq> 200
              \<or> contains (content (example_server [] ?chat)) ''NONE''"
    using ct cn by simp
  have "update_engineer_pages example_server (?pre @ (''MAYA'', ''557203'') # [])
          (Some ''k'') ''t'' ''Sync'' ''May 01, 2025'' []
        = update_engineer_pages example_server [] (Some ''k'') ''t'' ''Sync'' ''May 01, 2025''
            (?h0 @ [(?chat, example_server [] ?chat)])"
    using k refl same[symmetric] skip
    by (rule C10_skip_on_failed_or_NONE_extraction)
  then have "update_engineer_pages example_server ENGINEER_PAGES (Some ''k'') ''t''
               ''Sync'' ''May 01, 2025'' []
             = ?h0 @ [(?chat, example_server [] ?chat)]"
    by (simp add: ENGINEER_PAGES_def update_engineer_pages_def[of _ "[]"])
  with st ct cn show ?thesis by simp
qed

section \<open>The permission probe\<close>

text \<open>The exchanges of the loop over the listed pages: rejected test creations, each
  answered by the service after the exchanges before it, and then the end of the loop.\<close>

lemma create_attempts_append:
  "create_attempts (xs @ ys) = create_attempts xs + create_attempts ys"
  by (simp add: create_attempts_def)

lemma create_attempts_le: "create_attempts tr \<le> length tr"
  by (simp add: create_attempts_def)

lemma probe_pages_trace:
  "\<exists>k rejected final.
      k \<le> length pages
    \<and> snd (probe_pages srv space_key pages h) = h @ rejected @ final
    \<and> length rejected = k
    \<and> (\<forall>i<k. \<exists>n. py_int (cand_id (pages ! i)) = Inr n
            \<and> rejected ! i
                = (test_page_request space_key (cand_id (pages ! i)) n,
                   srv (h @ take i rejected) (test_page_request space_key (cand_id (pages ! i)) n))
            \<and> \<not> created_ok (snd (rejected ! i)))
    \<and> ((fst (probe_pages srv space_key pages h) = Inr None \<and> k = length pages \<and> final = [])
       \<or> (k < length pages
          \<and> (\<exists>e. py_int (cand_id (pages ! k)) = Inl e
                 \<and> fst (probe_pages srv space_key pages h) = Inl e)
          \<and> final = [])
       \<or> (k < length pages
          \<and> fst (probe_pages srv space_key pages h) = Inr (Some (cand_id (pages ! k)))
          \<and> (\<exists>n accepted deleted.
                py_int (cand_id (pages ! k)) = Inr n
              \<and> accepted = srv (h @ rejected) (test_page_request space_key (cand_id (pages ! k)) n)
              \<and> created_ok accepted
              \<and> deleted = srv (h @ rejected
                                 @ [(test_page_request space_key (cand_id (pages ! k)) n, accepted)])
                              (DeletePage (new_id accepted))
              \<and> final = [(test_page_request space_key (cand_id (pages ! k)) n, accepted),
                         (DeletePage (new_id accepted), deleted)])))"
  (is "\<exists>k rejected final. ?P pages h k rejected final")
proof (induction pages arbitrary: h)
  case Nil
  have "?P [] h 0 [] []" by simp
  then show ?case by blast
next
  case (Cons page pages)
  show ?case
  proof (cases "py_int (cand_id page)")
    case (Inl e)
    then have "?P (page # pages) h 0 [] []" by simp
    then show ?thesis by blast
  next
    case (Inr n)
    let ?req = "test_page_request space_key (cand_id page) n"
    let ?resp = "srv h ?req"
    let ?h1 = "h @ [(?req, ?resp)]"
    show ?thesis
    proof (cases "created_ok ?resp")
      case True
      let ?del = "DeletePage (new_id ?resp)"
      have "?P (page # pages) h 0 [] [(?req, ?resp), (?del, srv ?h1 ?del)]"
        using Inr True by (simp add: Let_def)
      then show ?thesis by blast
    next
      case False
      have step: "probe_pages srv space_key (page # pages) h = probe_pages srv space_key pages ?h1"
        using Inr False by (simp add: Let_def)
      from Cons.IH[of ?h1] obtain k rejected final where ih: "?P pages ?h1 k rejected final"
        by blast
      have "?P (page # pages) h (Suc k) ((?req, ?resp) # rejected) final"
        unfolding step using ih Inr False
        by (auto simp: less_Suc_eq_0_disj)
      then show ?thesis by blast
    qed
  qed
qed

lemma find_valid_parent_pages_trace:
  assumes "find_valid_parent_pages srv space_key h = (found, h')"
  shows "\<exists>response tr.
      response = srv h (SearchPages space_key 10)
    \<and> h' = h @ (SearchPages space_key 10, response) # tr
    \<and> (status_code response \<noteq> 200 \<longrightarrow> found = Inr None \<and> tr = [])
    \<and> (status_code response = 200 \<longrightarrow>
         (\<exists>k rejected final.
             k \<le> length (results response)
           \<and> tr = rejected @ final
           \<and> length rejected = k
           \<and> (\<forall>i<k. \<exists>n.
                  py_int (cand_id (results response ! i)) = Inr n
                \<and> rejected ! i
                    = (test_page_request space_key (cand_id (results response ! i)) n,
                       srv (h @ (SearchPages space_key 10, response) # take i rejected)
                         (test_page_request space_key (cand_id (results response ! i)) n))
                \<and> \<not> created_ok (snd (rejected ! i)))
           \<and> ((found = Inr None \<and> k = length (results response) \<and> final = [])
              \<or> (k < length (results response)
                 \<and> (\<exists>e. py_int (cand_id (results response ! k)) = Inl e \<and> found = Inl e)
                 \<and> final = [])
              \<or> (k < length (results response)
                 \<and> found = Inr (Some (cand_id (results response ! k)))
                 \<and> (\<exists>n accepted deleted.
                       py_int (cand_id (results response ! k)) = Inr n
                     \<and> accepted
                         = srv (h @ (SearchPages space_key 10, response) # rejected)
                             (test_page_request space_key (cand_id (results response ! k)) n)
                     \<and> created_ok accepted
                     \<and> deleted
                         = srv (h @ (SearchPages space_key 10, response) # rejected
                                @ [(test_page_request space_key (cand_id (results response ! k)) n,
                                    accepted)])
                             (DeletePage (new_id accepted))
                     \<and> final
                         = [(test_page_request space_key (cand_id (results response ! k)) n,
                             accepted),
                            (DeletePage (new_id accepted), deleted)])))
           \<and> create_attempts tr \<le> length (results response)
           \<and> (length (results response) \<le> 10 \<longrightarrow> create_attempts tr \<le> 10)))"
proof -
  let ?search = "SearchPages space_key 10"
  let ?response = "srv h ?search"
  let ?h1 = "h @ [(?search, ?response)]"
  show ?thesis
  proof (cases "status_code ?response = 200")
    case False
    with assms have "found = Inr None" "h' = h @ (?search, ?response) # []"
      by (auto simp: find_valid_parent_pages_def Let_def)
    with False show ?thesis by blast
  next
    case True
    let ?pages = "results ?response"
    from assms True have run: "probe_pages srv space_key ?pages ?h1 = (found, h')"
      by (simp add: find_valid_parent_pages_def Let_def)
    from probe_pages_trace[of ?pages srv space_key ?h1]
    obtain k rejected final where
      k: "k \<le> length ?pages"
      and hist: "snd (probe_pages srv space_key ?pages ?h1) = ?h1 @ rejected @ final"
      and len: "length rejected = k"
      and rej: "\<forall>i<k. \<exists>n. py_int (cand_id (?pages ! i)) = Inr n
            \<and> rejected ! i
                = (test_page_request space_key (cand_id (?pages ! i)) n,
                   srv (?h1 @ take i rejected) (test_page_request space_key (cand_id (?pages ! i)) n))
            \<and> \<not> created_ok (snd (rejected ! i))"
      and fin: "(fst (probe_pages srv space_key ?pages ?h1) = Inr None \<and> k = length ?pages \<and> final = [])
       \<or> (k < length ?pages
          \<and> (\<exists>e. py_int (cand_id (?pages ! k)) = Inl e
                 \<and> fst (probe_pages srv space_key ?pages ?h1) = Inl e)
          \<and> final = [])
       \<or> (k < length ?pages
          \<and> fst (probe_pages srv space_key ?pages ?h1) = Inr (Some (cand_id (?pages ! k)))
          \<and> (\<exists>n accepted deleted.
                py_int (cand_id (?pages ! k)) = Inr n
              \<and> accepted = srv (?h1 @ rejected) (test_page_request space_key (cand_id (?pages ! k)) n)
              \<and> created_ok accepted
              \<and> deleted = srv (?h1 @ rejected
                                 @ [(test_page_request space_key (cand_id (?pages ! k)) n, accepted)])
                              (DeletePage (new_id accepted))
              \<and> final = [(test_page_request space_key (cand_id (?pages ! k)) n, accepted),
                         (DeletePage (new_id accepted), deleted)]))"
      by blast
    have h': "h' = h @ (?search, ?response) # (rejected @ final)"
      using hist run by simp
    have found: "fst (probe_pages srv space_key ?pages ?h1) = found"
      using run by simp
    have "create_attempts rejected \<le> k"
      using create_attempts_le[of rejected] len by simp
    moreover have "create_attempts final \<le> (if k < length ?pages then 1 else 0)"
      using fin by (auto simp: create_attempts_def test_page_request_def)
    ultimately have att: "create_attempts (rejected @ final) \<le> length ?pages"
      using k by (auto simp: create_attempts_append split: if_splits)
    have inner: "\<exists>k' rejected' final'.
             k' \<le> length ?pages
           \<and> rejected @ final = rejected' @ final'
           \<and> length rejected' = k'
           \<and> (\<forall>i<k'. \<exists>n.
                  py_int (cand_id (?pages ! i)) = Inr n
                \<and> rejected' ! i
                    = (test_page_request space_key (cand_id (?pages ! i)) n,
                       srv (h @ (?search, ?response) # take i rejected')
                         (test_page_request space_key (cand_id (?pages ! i)) n))
                \<and> \<not> created_ok (snd (rejected' ! i)))
           \<and> ((found = Inr None \<and> k' = length ?pages \<and> final' = [])
              \<or> (k' < length ?pages
                 \<and> (\<exists>e. py_int (cand_id (?pages ! k')) = Inl e \<and> found = Inl e)
                 \<and> final' = [])
              \<or> (k' < length ?pages
                 \<and> found = Inr (Some (cand_id (?pages ! k')))
                 \<and> (\<exists>n accepted deleted.
                       py_int (cand_id (?pages ! k')) = Inr n
                     \<and> accepted
                         = srv (h @ (?search, ?response) # rejected')
                             (test_page_request space_key (cand_id (?pages ! k')) n)
                     \<and> created_ok accepted
                     \<and> deleted
                         = srv (h @ (?search, ?response) # rejected'
                                @ [(test_page_request space_key (cand_id (?pages ! k')) n,
                                    accepted)])
                             (DeletePage (new_id accepted))
                     \<and> final'
                         = [(test_page_request space_key (cand_id (?pages ! k')) n,
                             accepted),
                            (DeletePage (new_id accepted), deleted)])))
           \<and> create_attempts (rejected @ final) \<le> length ?pages
           \<and> (length ?pages \<le> 10 \<longrightarrow> create_attempts (rejected @ final) \<le> 10)"
      apply (rule exI[of _ k], rule exI[of _ rejected], rule exI[of _ final])
      using k len rej fin att unfolding found by simp
    show ?thesis
      apply (rule exI[of _ ?response], rule exI[of _ "rejected @ final"])
      using True h' inner by simp
  qed
qed

text \<open>
  Claim C4, as stated: the probe examines at most 10 candidates. It fails at a service that
  lists eleven pages and accepts no child page: the probe makes eleven test creations,
  twelve exchanges with the listing, and returns null.
\<close>

theorem C4_counterexample:
  "create_attempts (snd (find_valid_parent_pages crowded_server ''DUB'' [])) = 11
   \<and> length (snd (find_valid_parent_pages crowded_server ''DUB'' [])) = 12
   \<and> length (results (crowded_server [] (SearchPages ''DUB'' 10))) = 11
   \<and> fst (find_valid_parent_pages crowded_server ''DUB'' []) = Inr None"
  by code_simp

text \<open>
  Claim C4, amended. The probe first lists the pages of the space, asking for at most 10.
  When the listing does not answer 200, nothing else is requested and the result is null.
  Otherwise the probe goes through the listed pages in listed order, through all that were
  listed: for each it reads the identifier as an integer and asks for the creation of a
  test page under it, and every answer is the answer of the service after the exchanges so
  far. After \<open>k\<close> rejected creations, either all listed pages were tried and the result is
  null; or the identifier of the next page is no numeral and the probe ends with the
  \<^verbatim>\<open>ValueError\<close>; or the next creation is accepted with 200 or 201: then the page just
  created is deleted, whatever the deletion answers, the result is the identifier of the
  accepting page as listed, and nothing more is requested. There are never more creations
  than listed pages, so at most 10 when the listing honours the limit.
\<close>

theorem C4_probe_returns_first_accepting_candidate:
  assumes "find_valid_parent_pages srv space_key h = (found, h')"
  shows "\<exists>response tr.
      response = srv h (SearchPages space_key 10)
    \<and> h' = h @ (SearchPages space_key 10, response) # tr
    \<and> (status_code response \<noteq> 200 \<longrightarrow> found = Inr None \<and> tr = [])
    \<and> (status_code response = 200 \<longrightarrow>
         (\<exists>k rejected final.
             k \<le> length (results response)
           \<and> tr = rejected @ final
           \<and> length rejected = k
           \<and> (\<forall>i<k. \<exists>n.
                  py_int (cand_id (results response ! i)) = Inr n
                \<and> rejected ! i
                    = (CreatePage (''Test Page - '' @ cand_id (results response ! i))
                         space_key (Some n) ''<p>Test</p>'',
                       srv (h @ (SearchPages space_key 10, response) # take i rejected)
                         (CreatePage (''Test Page - '' @ cand_id (results response ! i))
                            space_key (Some n) ''<p>Test</p>''))
                \<and> \<not> (status_code (snd (rejected ! i)) = 200
                       \<or> status_code (snd (rejected ! i)) = 201))
           \<and> ((found = Inr None \<and> k = length (results response) \<and> final = [])
              \<or> (k < length (results response)
                 \<and> (\<exists>e. py_int (cand_id (results response ! k)) = Inl e \<and> found = Inl e)
                 \<and> final = [])
              \<or> (k < length (results response)
                 \<and> found = Inr (Some (cand_id (results response ! k)))
                 \<and> (\<exists>n accepted deleted.
                       py_int (cand_id (results response ! k)) = Inr n
                     \<and> accepted
                         = srv (h @ (SearchPages space_key 10, response) # rejected)
                             (CreatePage (''Test Page - '' @ cand_id (results response ! k))
                                space_key (Some n) ''<p>Test</p>'')
                     \<and> (status_code accepted = 200 \<or> status_code accepted = 201)
                     \<and> deleted
                         = srv (h @ (SearchPages space_key 10, response) # rejected
                                @ [(CreatePage (''Test Page - '' @ cand_id (results response ! k))
                                      space_key (Some n) ''<p>Test</p>'',
                                    accepted)])
                             (DeletePage (new_id accepted))
                     \<and> final
                         = [(CreatePage (''Test Page - '' @ cand_id (results response ! k))
                               space_key (Some n) ''<p>Test</p>'',
                             accepted),
                            (DeletePage (new_id accepted), deleted)])))
           \<and> create_attempts tr \<le> length (results response)
           \<and> (length (results response) \<le> 10 \<longrightarrow> create_attempts tr \<le> 10)))"
  using find_valid_parent_pages_trace[OF assms]
  unfolding test_page_request_def created_ok_def .

theorem C4_witness:
  "find_valid_parent_pages example_server ''DUB'' []
     = (Inr (Some ''34''),
        [(SearchPages ''DUB'' 10, example_server [] (SearchPages ''DUB'' 10)),
         (CreatePage ''Test Page - 12'' ''DUB'' (Some 12) ''<p>Test</p>'', reply 403),
         (CreatePage ''Test Page - 34'' ''DUB'' (Some 34) ''<p>Test</p>'',
          (reply 200)\<lparr>new_id := ''900''\<rparr>),
         (DeletePage ''900'', reply 500)])
   \<and> status_code (example_server [] (SearchPages ''DUB'' 10)) = 200
   \<and> length (results (example_server [] (SearchPages ''DUB'' 10))) \<le> 10
   \<and> create_attempts
        [(CreatePage ''Test Page - 12'' ''DUB'' (Some 12) ''<p>Test</p>'', reply 403),
         (CreatePage ''Test Page - 34'' ''DUB'' (Some 34) ''<p>Test</p>'',
          (reply 200)\<lparr>new_id := ''900''\<rparr>),
         (DeletePage ''900'', reply 500)] \<le> 10"
proof -
  let ?tr = "[(CreatePage ''Test Page - 12'' ''DUB'' (Some 12) ''<p>Test</p>'', reply 403),
         (CreatePage ''Test Page - 34'' ''DUB'' (Some 34) ''<p>Test</p>'',
          (reply 200)\<lparr>new_id := ''900''\<rparr>),
         (DeletePage ''900'', reply 500)]"
  have run: "find_valid_parent_pages example_server ''DUB'' []
     = (Inr (Some ''34''),
        [] @ (SearchPages ''DUB'' 10, example_server [] (SearchPages ''DUB'' 10)) # ?tr)"
    by code_simp
  have st: "status_code (example_server [] (SearchPages ''DUB'' 10)) = 200"
    by (simp add: reply_def)
  have len: "length (results (example_server [] (SearchPages ''DUB'' 10))) \<le> 10"
    by (simp add: reply_def)
  from C4_probe_returns_first_accepting_candidate[OF run] st len
  have "create_attempts ?tr \<le> 10"
    by auto
  with run st len show ?thesis by simp
qed

section \<open>Work items\<close>

text \<open>The issue creations of a run: none while the assignee is looked up, one for each
  ticket, and so one for each action item, in the order of the items.\<close>

lemma issue_requests_append:
  "issue_requests (xs @ ys) = issue_requests xs @ issue_requests ys"
  by (simp add: issue_requests_def)

lemma resolve_assignee_trace:
  "\<exists>tr. snd (resolve_assignee srv who h) = h @ tr \<and> issue_requests tr = []"
  by (auto simp: resolve_assignee_def get_jira_user_by_name_def Let_def issue_requests_def
      split: option.splits list.splits prod.splits if_splits)

lemma create_jira_ticket_trace:
  "\<exists>tr account.
     snd (create_jira_ticket srv summary description project_key issue_type who h) = h @ tr
   \<and> issue_requests tr = [CreateIssue project_key summary description issue_type account]"
proof -
  obtain account h1 where r: "resolve_assignee srv who h = (account, h1)"
    by (cases "resolve_assignee srv who h")
  with resolve_assignee_trace[of srv who h] obtain tr1
    where tr1: "h1 = h @ tr1" "issue_requests tr1 = []" by auto
  let ?create = "CreateIssue project_key summary description issue_type account"
  have "snd (create_jira_ticket srv summary description project_key issue_type who h)
          = h @ (tr1 @ [(?create, srv h1 ?create)])"
    using r tr1(1) by (simp add: create_jira_ticket_def Let_def)
  moreover have "issue_requests (tr1 @ [(?create, srv h1 ?create)]) = [?create]"
    using tr1(2) by (simp add: issue_requests_append) (simp add: issue_requests_def)
  ultimately show ?thesis by blast
qed

lemma create_tickets_trace:
  "\<exists>tr accounts.
     snd (create_tickets srv project_key meeting_title link its created h) = h @ tr
   \<and> length accounts = length its
   \<and> issue_requests tr
       = map (\<lambda>(it, account).
                CreateIssue project_key (ticket_summary (task it))
                  (ticket_description meeting_title (task it) link) ''Task'' account)
           (zip its accounts)"
proof (induction its arbitrary: created h)
  case Nil
  show ?case by (simp add: issue_requests_def)
next
  case (Cons it its)
  let ?s = "ticket_summary (task it)"
  let ?d = "ticket_description meeting_title (task it) link"
  obtain res h1 where run: "create_jira_ticket srv ?s ?d project_key ''Task'' (assignee it) h = (res, h1)"
    by (cases "create_jira_ticket srv ?s ?d project_key ''Task'' (assignee it) h")
  with create_jira_ticket_trace[of srv ?s ?d project_key "''Task''" "assignee it" h]
  obtain tr1 account where tr1: "h1 = h @ tr1"
      "issue_requests tr1 = [CreateIssue project_key ?s ?d ''Task'' account]"
    by auto
  obtain created' where step:
    "create_tickets srv project_key meeting_title link (it # its) created h
       = create_tickets srv project_key meeting_title link its created' h1"
    using run by (cases res) auto
  from Cons.IH[of created' h1] obtain tr accounts where ih:
    "snd (create_tickets srv project_key meeting_title link its created' h1) = h1 @ tr"
    "length accounts = length its"
    "issue_requests tr
       = map (\<lambda>(it, account).
                CreateIssue project_key (ticket_summary (task it))
                  (ticket_description meeting_title (task it) link) ''Task'' account)
           (zip its accounts)"
    by blast
  show ?case
    unfolding step
    apply (rule exI[of _ "tr1 @ tr"], rule exI[of _ "account # accounts"])
    using ih tr1 by (simp add: issue_requests_append)
qed

text \<open>
  Claim C5. Whatever the services answer, the issue creations of the loop over the action
  items are exactly one for each item, in the order of the items, each with the summary
  and the description of its item: no answer to an earlier lookup or creation keeps a later
  item from being attempted. And when the user search for a non-empty assignee name does
  not answer 200 or finds nobody, the ticket is still submitted, right after the search,
  with no assignee.
\<close>

theorem C5_each_item_attempted_and_unresolved_assignee_left_unassigned:
  "(\<exists>tr accounts.
      snd (create_tickets srv project_key meeting_title link its created h) = h @ tr
    \<and> length accounts = length its
    \<and> issue_requests tr
        = map (\<lambda>(it, account).
                 CreateIssue project_key (ticket_summary (task it))
                   (ticket_description meeting_title (task it) link) ''Task'' account)
            (zip its accounts))
   \<and> (name \<noteq> []
       \<and> (status_code (srv h (UserSearch name)) \<noteq> 200 \<or> users (srv h (UserSearch name)) = [])
      \<longrightarrow> (\<exists>answer.
            snd (create_jira_ticket srv summary description project_key issue_type (Some name) h)
              = h @ [(UserSearch name, srv h (UserSearch name)),
                     (CreateIssue project_key summary description issue_type None, answer)]))"
proof (intro conjI impI)
  show "\<exists>tr accounts.
      snd (create_tickets srv project_key meeting_title link its created h) = h @ tr
    \<and> length accounts = length its
    \<and> issue_requests tr
        = map (\<lambda>(it, account).
                 CreateIssue project_key (ticket_summary (task it))
                   (ticket_description meeting_title (task it) link) ''Task'' account)
            (zip its accounts)"
    by (rule create_tickets_trace)
next
  assume "name \<noteq> []
       \<and> (status_code (srv h (UserSearch name)) \<noteq> 200 \<or> users (srv h (UserSearch name)) = [])"
  then have "resolve_assignee srv (Some name) h
               = (None, h @ [(UserSearch name, srv h (UserSearch name))])"
    by (auto simp: resolve_assignee_def get_jira_user_by_name_def Let_def split: list.splits)
  then show "\<exists>answer.
            snd (create_jira_ticket srv summary description project_key issue_type (Some name) h)
              = h @ [(UserSearch name, srv h (UserSearch name)),
                     (CreateIssue project_key summary description issue_type None, answer)]"
    by (simp add: create_jira_ticket_def Let_def)
qed

theorem C5_witness:
  "''Bob'' \<noteq> []
   \<and> users (example_server [] (UserSearch ''Bob'')) = []
   \<and> snd (create_jira_ticket example_server ''Rejected'' ''d'' ''DUB'' ''Task'' (Some ''Bob'') [])
       = [(UserSearch ''Bob'', reply 200),
          (CreateIssue ''DUB'' ''Rejected'' ''d'' ''Task'' None, reply 400)]
   \<and> issue_requests
        (snd (create_tickets example_server ''DUB'' ''Sync'' ''N/A''
                [\<lparr>task = ''Rejected'', assignee = Some ''Bob''\<rparr>,
                 \<lparr>task = ''Write notes'', assignee = Some ''Maya''\<rparr>] [] []))
       = [CreateIssue ''DUB'' ''Rejected'' (ticket_description ''Sync'' ''Rejected'' ''N/A'')
            ''Task'' None,
          CreateIssue ''DUB'' ''Write notes'' (ticket_description ''Sync'' ''Write notes'' ''N/A'')
            ''Task'' (Some ''acc-maya'')]"
  using C5_each_item_attempted_and_unresolved_assignee_left_unassigned
    [where srv = example_server and project_key = "''DUB''" and meeting_title = "''Sync''"
       and link = "''N/A''" and created = "[]" and h = "[]" and name = "''Bob''"
       and summary = "''Rejected''" and description = "''d''" and issue_type = "''Task''"
       and its = "[\<lparr>task = ''Rejected'', assignee = Some ''Bob''\<rparr>,
                   \<lparr>task = ''Write notes'', assignee = Some ''Maya''\<rparr>]"]
  by (simp add: create_jira_ticket_def resolve_assignee_def get_jira_user_by_name_def Let_def
        reply_def created_ok_def ticket_summary_def issue_requests_def)

section \<open>The parser of the completion\<close>




















text \<open>
  Claim C2 says that an action line without the assignee marker gives an item with a null
  assignee and the line without its numbering as the task. The assignee is null, but the
  task is not the line without its numbering: lines 193 and 194 cut at the first period
  followed by a space, wherever it stands, so of \<open>1) Send the report to Dr. Lee\<close> the task
  kept is \<open>Lee\<close>. This is the defect of claim C1. The line of the claim's example,
  \<open>2) Fix the retry bug | ASSIGNEE: Maya\<close>, is parsed as the claim says.
\<close>

theorem C2_task_of_unmarked_line_loses_text:
  "parse_completion (''ACTION ITEMS:'' @ newline @ ''1) Send the report to Dr. Lee'')
     = Inr \<lparr>title = default_title,
            summary_html = ''ACTION ITEMS:'' @ newline @ ''1) Send the report to Dr. Lee'',
            action_items = [\<lparr>task = ''Lee'', assignee = None\<rparr>]\<rparr>
   \<and> \<not> contains ''1) Send the report to Dr. Lee'' ''| ASSIGNEE:''
   \<and> \<not> contains ''1) Send the report to Dr. Lee'' ''|ASSIGNEE:''
   \<and> parse_completion (''ACTION ITEMS:'' @ newline @ ''2) Fix the retry bug | ASSIGNEE: Maya'')
     = Inr \<lparr>title = default_title,
            summary_html = ''ACTION ITEMS:'' @ newline @ ''2) Fix the retry bug | ASSIGNEE: Maya'',
            action_items = [\<lparr>task = ''Fix the retry bug'', assignee = Some ''Maya''\<rparr>]\<rparr>"
  by code_simp

text \<open>
  Claim C9 says that of an action line with the assignee marker the task is the text before
  the first bar and that nothing after that bar reaches the item. By the defect of claim C1
  the cut of lines 193 and 194 can take the marker away with the numbering: of
  \<open>- Draft spec | ASSIGNEE: J. Doe | due Friday\<close> the task kept is \<open>Doe | due Friday\<close>,
  which is text after the first bar, and the assignee is null.
\<close>

theorem C9_marker_lost_with_the_numbering:
  "parse_completion
     (''ACTION ITEMS:'' @ newline @ ''- Draft spec | ASSIGNEE: J. Doe | due Friday'')
     = Inr \<lparr>title = default_title,
            summary_html = ''ACTION ITEMS:'' @ newline
                           @ ''- Draft spec | ASSIGNEE: J. Doe | due Friday'',
            action_items = [\<lparr>task = ''Doe | due Friday'', assignee = None\<rparr>]\<rparr>
   \<and> contains ''- Draft spec | ASSIGNEE: J. Doe | due Friday'' ''| ASSIGNEE:''"
  by code_simp

text \<open>
  Claim C1 says that only a leading numbering is removed from an action line and the rest
  of the task is kept. The code removes everything up to the first period followed by a
  space, wherever it stands: of the action line \<open>2) Ask Dr. Smith to review\<close> the task
  kept is \<open>Smith to review\<close>.
\<close>

theorem C1_text_before_an_inner_period_is_dropped:
  "parse_completion (''ACTION ITEMS:'' @ newline @ ''2) Ask Dr. Smith to review'')
     = Inr \<lparr>title = default_title,
            summary_html = ''ACTION ITEMS:'' @ newline @ ''2) Ask Dr. Smith to review'',
            action_items = [\<lparr>task = ''Smith to review'', assignee = None\<rparr>]\<rparr>"
  by code_simp

section \<open>Tasks and ticket summaries\<close>






end
